theory Spec2Isabelle
  imports Main "HOL-Library.Word"
begin

section \<open>The bitrate constraint of the video adaptation framework\<close>

text \<open>
  A shallow embedding of \<^verbatim>\<open>video/adaptation/bitrate_constraint.cc\<close>: the helper
  \<^verbatim>\<open>IsSimulcast\<close>, the two update methods of \<^verbatim>\<open>BitrateConstraint\<close> and its
  query \<^verbatim>\<open>IsAdaptationUpAllowed\<close>.

  The C++ members \<^verbatim>\<open>encoder_settings_\<close> and \<^verbatim>\<open>encoder_target_bitrate_bps_\<close>
  lose their trailing underscore, which an Isabelle name cannot end with. Every other
  name is the source's.
\<close>

subsection \<open>Machine integers\<close>

text \<open>
  \<^verbatim>\<open>uint32_t\<close> and \<^verbatim>\<open>int\<close> are 32-bit words. An \<^verbatim>\<open>int\<close> is held in two's
  complement and read with \<open>sint\<close>; a \<^verbatim>\<open>uint32_t\<close> is read with \<open>uint\<close>. The
  order \<open>\<le>\<close> of words is the unsigned one, as the comparison of two
  \<^verbatim>\<open>uint32_t\<close> is.
\<close>

type_synonym uint32_t = "32 word"
type_synonym int32 = "32 word"

text \<open>
  \<^verbatim>\<open>static_cast<uint32_t>(i)\<close> of an \<^verbatim>\<open>int\<close>: the unsigned value congruent to the
  value of \<open>i\<close> modulo \<open>2 ^ 32\<close>.
\<close>

definition static_cast_uint32_t :: "int32 \<Rightarrow> uint32_t" where
  "static_cast_uint32_t i = word_of_int (sint i)"

text \<open>
  The conversion of a \<^verbatim>\<open>uint32_t\<close> argument passed for an \<^verbatim>\<open>int\<close> parameter:
  the \<^verbatim>\<open>int\<close> congruent to the value of \<open>u\<close> modulo \<open>2 ^ 32\<close>, which has the
  bits of \<open>u\<close>.
\<close>

definition uint32_to_int :: "uint32_t \<Rightarrow> int32" where
  "uint32_to_int u = word_of_int (uint u)"

text \<open>\<^verbatim>\<open>absl::optional<T>::value_or\<close>.\<close>

definition value_or :: "'a option \<Rightarrow> 'a \<Rightarrow> 'a" where
  "value_or opt default_value = (case opt of None \<Rightarrow> default_value | Some v \<Rightarrow> v)"

subsection \<open>Data\<close>

text \<open>
  Of a \<^verbatim>\<open>VideoStream\<close> the source reads the flag \<^verbatim>\<open>active\<close>, of a
  \<^verbatim>\<open>VideoEncoderConfig\<close> the vector \<^verbatim>\<open>simulcast_layers\<close>, and of a
  \<^verbatim>\<open>VideoEncoder::ResolutionBitrateLimits\<close> the two \<^verbatim>\<open>int\<close> members
  \<^verbatim>\<open>frame_size_pixels\<close> and \<^verbatim>\<open>min_start_bitrate_bps\<close>.
\<close>

record VideoStream =
  active :: bool

record VideoEncoderConfig =
  simulcast_layers :: "VideoStream list"

record ResolutionBitrateLimits =
  frame_size_pixels :: int32
  min_start_bitrate_bps :: int32

text \<open>
  \<^verbatim>\<open>EncoderSettings\<close> gives the three accessors the query calls. The encoder
  information (\<open>'info\<close>) and the codec description (\<open>'codec\<close>) are only handed on
  to functions declared outside the source file, so their types stay parameters.
\<close>

record ('info, 'codec) EncoderSettings =
  encoder_info :: 'info
  encoder_config :: VideoEncoderConfig
  video_codec :: 'codec

text \<open>The object: its two members, both optional.\<close>

record ('info, 'codec) BitrateConstraint =
  encoder_settings :: "('info, 'codec) EncoderSettings option"
  encoder_target_bitrate_bps :: "uint32_t option"

text \<open>
  The query calls four functions that the source file only includes:
  \<^verbatim>\<open>DidIncreaseResolution\<close>,
  \<^verbatim>\<open>VideoStreamEncoderResourceManager::GetSingleActiveLayerPixels\<close>,
  \<^verbatim>\<open>GetHigherResolutionThan\<close> and
  \<^verbatim>\<open>EncoderInfo::GetEncoderBitrateLimitsForResolution\<close>. They are parameters of
  the model; pixel counts pass between them as 32-bit values. So is the build flag
  \<^verbatim>\<open>RTC_DCHECK_IS_ON\<close> that decides whether \<^verbatim>\<open>RTC_DCHECK_GE\<close> is evaluated.
  Every theorem about the query holds for all values of these parameters.
\<close>

record ('restr, 'info, 'codec) collaborators =
  DidIncreaseResolution :: "'restr \<Rightarrow> 'restr \<Rightarrow> bool"
  GetSingleActiveLayerPixels :: "'codec \<Rightarrow> uint32_t option"
  GetHigherResolutionThan :: "int32 \<Rightarrow> int32"
  GetEncoderBitrateLimitsForResolution :: "'info \<Rightarrow> int32 \<Rightarrow> ResolutionBitrateLimits option"
  RTC_DCHECK_IS_ON :: bool

text \<open>
  What a call can do other than return: read a vector out of range
  (\<^verbatim>\<open>simulcast_layers[0]\<close> of an empty vector, undefined behaviour in C++), or fail
  the assertion \<^verbatim>\<open>RTC_DCHECK_GE\<close> in a build that evaluates it.
\<close>

datatype fault = OutOfBoundsRead | DCheckFailure

subsection \<open>IsSimulcast\<close>

text \<open>
  The source computes \<^verbatim>\<open>simulcast_layers.size() > 1\<close>, then reads
  \<^verbatim>\<open>simulcast_layers[0].active\<close> whatever the size is, then counts the active
  layers, and returns
  \<^verbatim>\<open>is_simulcast && (num_active_layers > 1 || is_lowest_layer_active)\<close>.
  \<^verbatim>\<open>num_active_layers\<close> is the number of active elements of the vector, which
  is at most its size; it is a mathematical integer here.
\<close>

definition IsSimulcast :: "VideoEncoderConfig \<Rightarrow> fault + bool" where
  "IsSimulcast encoder_config' =
     (let layers = simulcast_layers encoder_config';
          is_simulcast = (length layers > 1)
      in case layers of
           [] \<Rightarrow> Inl OutOfBoundsRead
         | lowest # _ \<Rightarrow>
             (let is_lowest_layer_active = active lowest;
                  num_active_layers = int (length (filter active layers))
              in Inr (is_simulcast \<and> (num_active_layers > 1 \<or> is_lowest_layer_active))))"

subsection \<open>The update methods\<close>

text \<open>Each is one assignment to one member.\<close>

definition OnEncoderSettingsUpdated ::
  "('info, 'codec) EncoderSettings option \<Rightarrow> ('info, 'codec) BitrateConstraint
     \<Rightarrow> ('info, 'codec) BitrateConstraint" where
  "OnEncoderSettingsUpdated new_settings this = this\<lparr>encoder_settings := new_settings\<rparr>"

definition OnEncoderTargetBitrateUpdated ::
  "uint32_t option \<Rightarrow> ('info, 'codec) BitrateConstraint
     \<Rightarrow> ('info, 'codec) BitrateConstraint" where
  "OnEncoderTargetBitrateUpdated new_bitrate this =
     this\<lparr>encoder_target_bitrate_bps := new_bitrate\<rparr>"

subsection \<open>IsAdaptationUpAllowed\<close>

text \<open>
  The query, branch by branch in the order of the source. \<^verbatim>\<open>RTC_DCHECK_GE\<close>
  compares the values of its two arguments, an \<^verbatim>\<open>int\<close> and a \<^verbatim>\<open>uint32_t\<close>. The
  parameter \<open>input_state\<close> is never read. This function is the decision as a function
  of what lines 62 to 98 read; the method on the object, with line 61 and the memory it
  leaves, follows it.
\<close>

definition IsAdaptationUpAllowed ::
  "('restr, 'info, 'codec) collaborators \<Rightarrow> ('info, 'codec) BitrateConstraint
     \<Rightarrow> 'input \<Rightarrow> 'restr \<Rightarrow> 'restr \<Rightarrow> fault + bool" where
  "IsAdaptationUpAllowed env this input_state restrictions_before restrictions_after =
     (if DidIncreaseResolution env restrictions_before restrictions_after then
        (case encoder_settings this of
           None \<Rightarrow> Inr True
         | Some settings \<Rightarrow>
             (let bitrate_bps = value_or (encoder_target_bitrate_bps this) 0
              in if bitrate_bps = 0 then Inr True
                 else
                   (case IsSimulcast (encoder_config settings) of
                      Inl f \<Rightarrow> Inl f
                    | Inr True \<Rightarrow> Inr True
                    | Inr False \<Rightarrow>
                        (case GetSingleActiveLayerPixels env (video_codec settings) of
                           None \<Rightarrow> Inr True
                         | Some current_frame_size_px \<Rightarrow>
                             (case GetEncoderBitrateLimitsForResolution env (encoder_info settings)
                                     (GetHigherResolutionThan env
                                        (uint32_to_int current_frame_size_px)) of
                                None \<Rightarrow> Inr True
                              | Some bitrate_limits \<Rightarrow>
                                  if RTC_DCHECK_IS_ON env \<and>
                                     sint (frame_size_pixels bitrate_limits)
                                       < uint current_frame_size_px
                                  then Inl DCheckFailure
                                  else Inr (bitrate_bps \<ge>
                                         static_cast_uint32_t
                                           (min_start_bitrate_bps bitrate_limits)))))))
      else Inr True)"

subsection \<open>The query as a method on the object\<close>

text \<open>
  The object in memory has a third member, \<^verbatim>\<open>sequence_checker_\<close>, whose type is
  declared outside the source file and stays a parameter (\<open>'checker\<close>).
\<close>

record ('info, 'codec, 'checker) BitrateConstraint_object =
  "('info, 'codec) BitrateConstraint" +
  sequence_checker :: 'checker

text \<open>
  What a call of the query can reach: the object behind \<^verbatim>\<open>this\<close> and the three
  arguments, each passed by reference.
\<close>

record ('restr, 'info, 'codec, 'input, 'checker) memory =
  this_object :: "('info, 'codec, 'checker) BitrateConstraint_object"
  input_state_arg :: 'input
  restrictions_before_arg :: 'restr
  restrictions_after_arg :: 'restr

text \<open>
  A statement runs on a memory and either faults, leaving no memory to speak of, or
  yields a value and the memory after it. \<open>reads\<close> evaluates an expression on the
  memory, \<open>writes\<close> replaces the memory, \<open>calls\<close> takes the result of a function
  that has only its own locals, and \<open>then_do\<close> is sequencing.
\<close>

type_synonym ('a, 'm) statement = "'m \<Rightarrow> fault + ('a \<times> 'm)"

definition returns :: "'a \<Rightarrow> ('a, 'm) statement" where
  "returns v = (\<lambda>m. Inr (v, m))"

definition reads :: "('m \<Rightarrow> 'a) \<Rightarrow> ('a, 'm) statement" where
  "reads f = (\<lambda>m. Inr (f m, m))"

definition writes :: "('m \<Rightarrow> fault + 'm) \<Rightarrow> (unit, 'm) statement" where
  "writes f = (\<lambda>m. case f m of Inl fault \<Rightarrow> Inl fault | Inr m' \<Rightarrow> Inr ((), m'))"

definition calls :: "fault + 'a \<Rightarrow> ('a, 'm) statement" where
  "calls r = (\<lambda>m. case r of Inl fault \<Rightarrow> Inl fault | Inr v \<Rightarrow> Inr (v, m))"

definition then_do ::
  "('a, 'm) statement \<Rightarrow> ('a \<Rightarrow> ('b, 'm) statement) \<Rightarrow> ('b, 'm) statement" where
  "then_do s rest = (\<lambda>m. case s m of Inl fault \<Rightarrow> Inl fault | Inr (v, m') \<Rightarrow> rest v m')"

text \<open>
  Line 61, \<^verbatim>\<open>RTC_DCHECK_RUN_ON(&sequence_checker_)\<close>. The macro and the checker are
  declared outside the source file: what the macro, evaluated on the calling sequence,
  does to the member is the parameter \<open>run_on\<close>. It may fail, and it may change the
  member.
\<close>

definition RTC_DCHECK_RUN_ON ::
  "('checker \<Rightarrow> fault + 'checker)
     \<Rightarrow> (unit, ('restr, 'info, 'codec, 'input, 'checker) memory) statement" where
  "RTC_DCHECK_RUN_ON run_on =
     writes (\<lambda>m. case run_on (sequence_checker (this_object m)) of
                   Inl fault \<Rightarrow> Inl fault
                 | Inr checker \<Rightarrow>
                     Inr (m\<lparr>this_object := (this_object m)\<lparr>sequence_checker := checker\<rparr>\<rparr>))"

text \<open>
  The body of \<^verbatim>\<open>BitrateConstraint::IsAdaptationUpAllowed\<close>, lines 61 to 98, statement
  by statement on the memory: line 61, then the reads of the arguments and of the two
  stored members in the order of the source, the call of \<^verbatim>\<open>IsSimulcast\<close>, the calls
  of the functions declared elsewhere, the assertion of line 92 and the comparison.
\<close>

definition BitrateConstraint_IsAdaptationUpAllowed ::
  "('restr, 'info, 'codec) collaborators \<Rightarrow> ('checker \<Rightarrow> fault + 'checker)
     \<Rightarrow> (bool, ('restr, 'info, 'codec, 'input, 'checker) memory) statement" where
  "BitrateConstraint_IsAdaptationUpAllowed env run_on =
     then_do (RTC_DCHECK_RUN_ON run_on) (\<lambda>_.
     then_do (reads (\<lambda>m. DidIncreaseResolution env
                            (restrictions_before_arg m) (restrictions_after_arg m)))
       (\<lambda>did_increase_resolution.
     if did_increase_resolution then
       then_do (reads (\<lambda>m. encoder_settings (this_object m))) (\<lambda>stored_settings.
       case stored_settings of
         None \<Rightarrow> returns True
       | Some settings \<Rightarrow>
           then_do (reads (\<lambda>m. value_or (encoder_target_bitrate_bps (this_object m)) 0))
             (\<lambda>bitrate_bps.
           if bitrate_bps = 0 then returns True
           else
             then_do (calls (IsSimulcast (encoder_config settings))) (\<lambda>is_simulcast.
             if is_simulcast then returns True
             else
               (case GetSingleActiveLayerPixels env (video_codec settings) of
                  None \<Rightarrow> returns True
                | Some current_frame_size_px \<Rightarrow>
                    (case GetEncoderBitrateLimitsForResolution env (encoder_info settings)
                            (GetHigherResolutionThan env
                               (uint32_to_int current_frame_size_px)) of
                       None \<Rightarrow> returns True
                     | Some bitrate_limits \<Rightarrow>
                         then_do
                           (calls (if RTC_DCHECK_IS_ON env \<and>
                                      sint (frame_size_pixels bitrate_limits)
                                        < uint current_frame_size_px
                                   then Inl DCheckFailure else Inr ()))
                           (\<lambda>_. returns (bitrate_bps \<ge>
                                   static_cast_uint32_t
                                     (min_start_bitrate_bps bitrate_limits))))))))
     else returns True))"

text \<open>
  The query called once for each element of a list, first element first; an element is
  what line 61 does on the sequence that makes the call. A fault ends the run.
\<close>

fun query_repeatedly ::
  "('restr, 'info, 'codec) collaborators \<Rightarrow> ('checker \<Rightarrow> fault + 'checker) list
     \<Rightarrow> ('restr, 'info, 'codec, 'input, 'checker) memory
     \<Rightarrow> fault + ('restr, 'info, 'codec, 'input, 'checker) memory" where
  "query_repeatedly env [] m = Inr m"
| "query_repeatedly env (run_on # later) m =
     (case BitrateConstraint_IsAdaptationUpAllowed env run_on m of
        Inl fault \<Rightarrow> Inl fault
      | Inr (allowed, m') \<Rightarrow> query_repeatedly env later m')"

subsection \<open>The functions declared outside the source file, after the specification\<close>

text \<open>
  Modelled from the spec: \<^verbatim>\<open>DidIncreaseResolution\<close>, whose definition is missing from
  the source file. The specification calls a restriction set a cap on the encoder's
  output resolution, such as a maximal pixel count, and a resolution increase a pair
  whose second set is strictly less restrictive than the first. Here a restriction set
  is an optional maximal pixel count, \<open>None\<close> for no cap.
\<close>

type_synonym spec_restrictions = "nat option"

definition spec_DidIncreaseResolution :: "spec_restrictions \<Rightarrow> spec_restrictions \<Rightarrow> bool" where
  "spec_DidIncreaseResolution restrictions_before restrictions_after =
     (case restrictions_before of
        None \<Rightarrow> False
      | Some max_before \<Rightarrow>
          (case restrictions_after of
             None \<Rightarrow> True
           | Some max_after \<Rightarrow> max_before < max_after))"

text \<open>
  Modelled from the spec: \<^verbatim>\<open>GetSingleActiveLayerPixels\<close>, whose definition is missing
  from the source file. The specification has it return the pixel count of the one
  active layer of a codec description, or nothing when that cannot be determined. Here
  a codec description lists its layers as (active, width, height).
\<close>

type_synonym spec_codec = "(bool \<times> uint32_t \<times> uint32_t) list"

definition spec_GetSingleActiveLayerPixels :: "spec_codec \<Rightarrow> uint32_t option" where
  "spec_GetSingleActiveLayerPixels codec =
     (case filter fst codec of
        [(_, width, height)] \<Rightarrow> Some (width * height)
      | _ \<Rightarrow> None)"

text \<open>
  Modelled from the spec: \<^verbatim>\<open>GetHigherResolutionThan\<close> and
  \<^verbatim>\<open>GetEncoderBitrateLimitsForResolution\<close>, whose definitions are missing from the
  source file. The specification has the two together look up the entry of the
  encoder's table for the smallest tabulated resolution strictly greater than the
  current pixel count, or nothing when the table has no such entry. Here the encoder
  information is the table, the first function gives the next pixel count, and the
  second the entry of the smallest tabulated resolution that is no less than its
  argument.
\<close>

type_synonym spec_info = "ResolutionBitrateLimits list"

definition spec_GetHigherResolutionThan :: "int32 \<Rightarrow> int32" where
  "spec_GetHigherResolutionThan pixel_count =
     (if sint pixel_count = 2 ^ 31 - 1 then pixel_count else pixel_count + 1)"

fun spec_GetEncoderBitrateLimitsForResolution ::
  "spec_info \<Rightarrow> int32 \<Rightarrow> ResolutionBitrateLimits option" where
  "spec_GetEncoderBitrateLimitsForResolution [] resolution = None"
| "spec_GetEncoderBitrateLimitsForResolution (e # es) resolution =
     (case spec_GetEncoderBitrateLimitsForResolution es resolution of
        None \<Rightarrow> (if sint resolution \<le> sint (frame_size_pixels e) then Some e else None)
      | Some best \<Rightarrow>
          (if sint resolution \<le> sint (frame_size_pixels e)
              \<and> sint (frame_size_pixels e) < sint (frame_size_pixels best)
           then Some e else Some best))"

definition spec_collaborators ::
  "bool \<Rightarrow> (spec_restrictions, spec_info, spec_codec) collaborators" where
  "spec_collaborators dcheck_is_on =
     \<lparr>DidIncreaseResolution = spec_DidIncreaseResolution,
      GetSingleActiveLayerPixels = spec_GetSingleActiveLayerPixels,
      GetHigherResolutionThan = spec_GetHigherResolutionThan,
      GetEncoderBitrateLimitsForResolution = spec_GetEncoderBitrateLimitsForResolution,
      RTC_DCHECK_IS_ON = dcheck_is_on\<rparr>"

text \<open>
  Modelled from the spec: \<^verbatim>\<open>RTC_DCHECK_RUN_ON\<close> and the sequence checker, which are
  missing from the source file. The specification has the object detached at creation,
  bound to the context of the first access after that, and every later access checked,
  in a build with assertions, to come from that context. Here a context is a number and
  the checker holds the owner, \<open>None\<close> while detached.
\<close>

definition spec_RTC_DCHECK_RUN_ON :: "bool \<Rightarrow> nat \<Rightarrow> nat option \<Rightarrow> fault + nat option" where
  "spec_RTC_DCHECK_RUN_ON dcheck_is_on current checker =
     (if dcheck_is_on then
        (case checker of
           None \<Rightarrow> Inr (Some current)
         | Some owner \<Rightarrow> if owner = current then Inr checker else Inl DCheckFailure)
      else Inr checker)"

text \<open>
  The configuration of the specification's example: one stream of 640 by 360 pixels, and
  a table whose next tier, 1280 by 720, has the minimal start bitrate \<open>m\<close>
  (1500000 in the example). The layers of the encoder configuration are a parameter.
\<close>

definition example_settings ::
  "VideoStream list \<Rightarrow> int32 \<Rightarrow> (spec_info, spec_codec) EncoderSettings" where
  "example_settings layers m =
     \<lparr>encoder_info = [\<lparr>frame_size_pixels = 230400, min_start_bitrate_bps = 500000\<rparr>,
                      \<lparr>frame_size_pixels = 921600, min_start_bitrate_bps = m\<rparr>],
      encoder_config = \<lparr>simulcast_layers = layers\<rparr>,
      video_codec = [(True, 640, 360)]\<rparr>"

text \<open>The same, with the one stream at 1280 by 720: the table has no tier above it.\<close>

definition example_settings_top :: "(spec_info, spec_codec) EncoderSettings" where
  "example_settings_top =
     \<lparr>encoder_info = [\<lparr>frame_size_pixels = 230400, min_start_bitrate_bps = 500000\<rparr>,
                      \<lparr>frame_size_pixels = 921600, min_start_bitrate_bps = 1500000\<rparr>],
      encoder_config = \<lparr>simulcast_layers = [\<lparr>active = True\<rparr>]\<rparr>,
      video_codec = [(True, 1280, 720)]\<rparr>"

section \<open>Properties\<close>

subsection \<open>Conversions\<close>

lemma static_cast_uint32_t_bits: "static_cast_uint32_t i = i"
  by (simp add: static_cast_uint32_t_def)

lemma uint_static_cast_uint32_t: "uint (static_cast_uint32_t i) = sint i mod 2 ^ 32"
  by (simp add: static_cast_uint32_t_def uint_sint take_bit_eq_mod)

lemma uint_static_cast_uint32_t_neg:
  assumes neg: "sint i < 0"
  shows "uint (static_cast_uint32_t i) = sint i + 2 ^ 32"
proof -
  have lo: "- (2 ^ 31) \<le> sint i"
    using sint_ge [of i] by simp
  have "uint (static_cast_uint32_t i) = (sint i + 2 ^ 32) mod 2 ^ 32"
    by (simp add: uint_static_cast_uint32_t)
  also have "\<dots> = sint i + 2 ^ 32"
    using neg lo by (intro mod_pos_pos_trivial) simp_all
  finally show ?thesis .
qed

lemma uint_static_cast_uint32_t_nonneg:
  assumes nonneg: "0 \<le> sint i"
  shows "uint (static_cast_uint32_t i) = sint i"
proof -
  have hi: "sint i < 2 ^ 31"
    using sint_lt [of i] by simp
  have "uint (static_cast_uint32_t i) = sint i mod 2 ^ 32"
    by (rule uint_static_cast_uint32_t)
  also have "\<dots> = sint i"
    using nonneg hi by (intro mod_pos_pos_trivial) simp_all
  finally show ?thesis .
qed

subsection \<open>IsSimulcast\<close>

lemma IsSimulcast_nonempty:
  "simulcast_layers cfg \<noteq> [] \<Longrightarrow>
   IsSimulcast cfg =
     Inr (length (simulcast_layers cfg) > 1 \<and>
          (length (filter active (simulcast_layers cfg)) > 1
           \<or> active (simulcast_layers cfg ! 0)))"
  by (cases "simulcast_layers cfg") (simp_all add: IsSimulcast_def)

lemma IsSimulcast_empty:
  "simulcast_layers cfg = [] \<Longrightarrow> IsSimulcast cfg = Inl OutOfBoundsRead"
  by (simp add: IsSimulcast_def)

lemma IsSimulcast_True_iff:
  "IsSimulcast cfg = Inr True \<longleftrightarrow>
     length (simulcast_layers cfg) > 1 \<and>
     (length (filter active (simulcast_layers cfg)) > 1 \<or> active (simulcast_layers cfg ! 0))"
  by (cases "simulcast_layers cfg = []") (simp_all add: IsSimulcast_nonempty IsSimulcast_empty)

subsection \<open>The branches of the query\<close>

lemma IsAdaptationUpAllowed_compare:
  assumes "DidIncreaseResolution env b a"
    and "encoder_settings this = Some settings"
    and "value_or (encoder_target_bitrate_bps this) 0 \<noteq> 0"
    and "IsSimulcast (encoder_config settings) = Inr False"
    and "GetSingleActiveLayerPixels env (video_codec settings) = Some P"
    and "GetEncoderBitrateLimitsForResolution env (encoder_info settings)
           (GetHigherResolutionThan env (uint32_to_int P)) = Some e"
    and "RTC_DCHECK_IS_ON env \<longrightarrow> uint P \<le> sint (frame_size_pixels e)"
  shows "IsAdaptationUpAllowed env this i b a =
           Inr (static_cast_uint32_t (min_start_bitrate_bps e)
                  \<le> value_or (encoder_target_bitrate_bps this) 0)"
  using assms by (auto simp add: IsAdaptationUpAllowed_def Let_def)

lemma IsAdaptationUpAllowed_False_only:
  assumes "IsAdaptationUpAllowed env this i b a = Inr False"
  shows "\<exists>settings P e.
           DidIncreaseResolution env b a
         \<and> encoder_settings this = Some settings
         \<and> value_or (encoder_target_bitrate_bps this) 0 \<noteq> 0
         \<and> IsSimulcast (encoder_config settings) = Inr False
         \<and> GetSingleActiveLayerPixels env (video_codec settings) = Some P
         \<and> GetEncoderBitrateLimitsForResolution env (encoder_info settings)
              (GetHigherResolutionThan env (uint32_to_int P)) = Some e
         \<and> \<not> static_cast_uint32_t (min_start_bitrate_bps e)
                \<le> value_or (encoder_target_bitrate_bps this) 0"
  using assms
  by (auto simp add: IsAdaptationUpAllowed_def Let_def
           split: if_splits option.splits sum.splits bool.splits)

text \<open>
  Evaluating the query on the example: the definitions to unfold, and the unsigned
  reading of the word \<open>- 1\<close>.
\<close>

lemmas example_eval =
  IsAdaptationUpAllowed_def IsSimulcast_def value_or_def uint32_to_int_def
  static_cast_uint32_t_def spec_collaborators_def example_settings_def
  example_settings_top_def spec_DidIncreaseResolution_def
  spec_GetSingleActiveLayerPixels_def spec_GetHigherResolutionThan_def
  OnEncoderSettingsUpdated_def OnEncoderTargetBitrateUpdated_def
  word_le_def unsigned_minus_1_eq_mask mask_eq_exp_minus_1

section \<open>The claims\<close>

subsection \<open>C2: a change that does not increase the resolution is allowed\<close>

text \<open>
  C2. For every stored state (any settings, any target bitrate) and every input state,
  if \<open>restrictions_after\<close> is not strictly less resolution-restrictive than
  \<open>restrictions_before\<close>, that is if \<^verbatim>\<open>DidIncreaseResolution\<close> is false of the pair,
  then \<^verbatim>\<open>IsAdaptationUpAllowed\<close> returns true.
\<close>

theorem IsAdaptationUpAllowed_no_increase:
  assumes "\<not> DidIncreaseResolution env restrictions_before restrictions_after"
  shows "IsAdaptationUpAllowed env this input_state restrictions_before restrictions_after
           = Inr True"
  using assms by (simp add: IsAdaptationUpAllowed_def)

text \<open>
  C2 at a concrete input: the example with a target bitrate of 1200000, below the
  1500000 of the next tier, and the same cap of 921600 pixels before and after.
\<close>

theorem IsAdaptationUpAllowed_no_increase_witness:
  "\<not> DidIncreaseResolution (spec_collaborators True) (Some 921600) (Some (921600 :: nat))
   \<and> IsAdaptationUpAllowed (spec_collaborators True)
        \<lparr>encoder_settings = Some (example_settings [\<lparr>active = True\<rparr>] 1500000),
         encoder_target_bitrate_bps = Some 1200000\<rparr>
        () (Some 921600) (Some 921600)
      = Inr True"
proof -
  have h: "\<not> DidIncreaseResolution (spec_collaborators True) (Some 921600) (Some (921600 :: nat))"
    by (simp add: spec_collaborators_def spec_DidIncreaseResolution_def)
  show ?thesis
    using h IsAdaptationUpAllowed_no_increase [OF h] by simp
qed

subsection \<open>C5: no encoder settings\<close>

text \<open>
  C5. For every resolution-increasing restriction pair and every input state, if no
  encoder settings are stored (the stored optional is absent), then
  \<^verbatim>\<open>IsAdaptationUpAllowed\<close> returns true.
\<close>

theorem IsAdaptationUpAllowed_no_settings:
  assumes "DidIncreaseResolution env restrictions_before restrictions_after"
    and "encoder_settings this = None"
  shows "IsAdaptationUpAllowed env this input_state restrictions_before restrictions_after
           = Inr True"
  using assms by (simp add: IsAdaptationUpAllowed_def)

text \<open>
  C5 at a concrete input: no settings, a target bitrate of 1, and a cap raised from
  230400 to 921600 pixels.
\<close>

theorem IsAdaptationUpAllowed_no_settings_witness:
  "DidIncreaseResolution (spec_collaborators True) (Some 230400) (Some (921600 :: nat))
   \<and> IsAdaptationUpAllowed (spec_collaborators True)
        \<lparr>encoder_settings = None, encoder_target_bitrate_bps = Some 1\<rparr>
        () (Some 230400) (Some 921600)
      = Inr True"
proof -
  have h: "DidIncreaseResolution (spec_collaborators True) (Some 230400) (Some (921600 :: nat))"
    by (simp add: spec_collaborators_def spec_DidIncreaseResolution_def)
  show ?thesis
    using h IsAdaptationUpAllowed_no_settings [OF h, of "\<lparr>encoder_settings = None,
      encoder_target_bitrate_bps = Some 1\<rparr>"]
    by simp
qed

subsection \<open>C1: the comparison with the minimal start bitrate\<close>

text \<open>
  C1, amended. For every stored state in which encoder settings are present, the stored
  target bitrate resolves to a nonzero effective value \<open>B\<close>, the configuration is not
  classified as simulcast, the pixel count of the single active layer resolves to some
  \<open>P\<close>, and the table of the encoder yields an entry \<open>e\<close> with minimal start bitrate
  \<open>M\<close> for the next tier above \<open>P\<close> (an entry of at least \<open>P\<close> pixels where the
  assertion is evaluated): on a resolution-increasing pair the query returns true if and
  only if \<open>B\<close> is at least \<open>M\<close> converted to \<^verbatim>\<open>uint32_t\<close>, which is \<open>M mod 2 ^ 32\<close>
  and is \<open>M\<close> itself when \<open>M\<close> is not negative. Whenever the query returns false,
  for any state and input, it has reached this comparison and the comparison has failed.
\<close>

theorem IsAdaptationUpAllowed_singlecast_threshold:
  assumes "DidIncreaseResolution env restrictions_before restrictions_after"
    and "encoder_settings this = Some settings"
    and "value_or (encoder_target_bitrate_bps this) 0 = B"
    and "B \<noteq> 0"
    and "IsSimulcast (encoder_config settings) = Inr False"
    and "GetSingleActiveLayerPixels env (video_codec settings) = Some P"
    and "GetEncoderBitrateLimitsForResolution env (encoder_info settings)
           (GetHigherResolutionThan env (uint32_to_int P)) = Some e"
    and "min_start_bitrate_bps e = M"
    and "RTC_DCHECK_IS_ON env \<longrightarrow> uint P \<le> sint (frame_size_pixels e)"
  shows "IsAdaptationUpAllowed env this input_state restrictions_before restrictions_after
           = Inr (sint M mod 2 ^ 32 \<le> uint B)
       \<and> (0 \<le> sint M \<longrightarrow>
            IsAdaptationUpAllowed env this input_state restrictions_before restrictions_after
              = Inr (sint M \<le> uint B))
       \<and> (\<forall>this' input_state' before' after'.
            IsAdaptationUpAllowed env this' input_state' before' after' = Inr False \<longrightarrow>
            (\<exists>settings' P' e'.
               DidIncreaseResolution env before' after'
             \<and> encoder_settings this' = Some settings'
             \<and> value_or (encoder_target_bitrate_bps this') 0 \<noteq> 0
             \<and> IsSimulcast (encoder_config settings') = Inr False
             \<and> GetSingleActiveLayerPixels env (video_codec settings') = Some P'
             \<and> GetEncoderBitrateLimitsForResolution env (encoder_info settings')
                  (GetHigherResolutionThan env (uint32_to_int P')) = Some e'
             \<and> \<not> static_cast_uint32_t (min_start_bitrate_bps e')
                    \<le> value_or (encoder_target_bitrate_bps this') 0))"
proof -
  have result: "IsAdaptationUpAllowed env this input_state restrictions_before restrictions_after
      = Inr (static_cast_uint32_t M \<le> B)"
    using IsAdaptationUpAllowed_compare [of env restrictions_before restrictions_after
        this settings P e input_state] assms
    by simp
  have unsigned: "(static_cast_uint32_t M \<le> B) = (sint M mod 2 ^ 32 \<le> uint B)"
    by (simp add: word_le_def uint_static_cast_uint32_t)
  have nonneg: "0 \<le> sint M \<Longrightarrow> (static_cast_uint32_t M \<le> B) = (sint M \<le> uint B)"
    by (simp add: word_le_def uint_static_cast_uint32_t_nonneg)
  show ?thesis
    apply (intro conjI allI impI)
      apply (simp add: result unsigned)
     apply (simp add: result nonneg)
    apply (erule IsAdaptationUpAllowed_False_only)
    done
qed

text \<open>
  C1 as amended, at the example of the specification: 640 by 360 pixels, the next tier
  at 1500000, a target bitrate of 1200000; the query returns false.
\<close>

theorem IsAdaptationUpAllowed_singlecast_threshold_witness:
  "DidIncreaseResolution (spec_collaborators True) (Some 230400) (Some (921600 :: nat))
   \<and> IsSimulcast (encoder_config (example_settings [\<lparr>active = True\<rparr>] 1500000)) = Inr False
   \<and> IsAdaptationUpAllowed (spec_collaborators True)
        \<lparr>encoder_settings = Some (example_settings [\<lparr>active = True\<rparr>] 1500000),
         encoder_target_bitrate_bps = Some 1200000\<rparr>
        () (Some 230400) (Some 921600)
      = Inr False"
proof -
  let ?env = "spec_collaborators True"
  let ?settings = "example_settings [\<lparr>active = True\<rparr>] 1500000"
  let ?obj = "\<lparr>encoder_settings = Some ?settings,
                encoder_target_bitrate_bps = Some (1200000 :: uint32_t)\<rparr>"
  let ?e = "\<lparr>frame_size_pixels = 921600, min_start_bitrate_bps = 1500000\<rparr>"
  have h1: "DidIncreaseResolution ?env (Some 230400) (Some (921600 :: nat))"
    by (simp add: example_eval)
  have h2: "encoder_settings ?obj = Some ?settings"
    by simp
  have h3: "value_or (encoder_target_bitrate_bps ?obj) 0 = 1200000"
    by (simp add: value_or_def)
  have h4: "(1200000 :: uint32_t) \<noteq> 0"
    by simp
  have h5: "IsSimulcast (encoder_config ?settings) = Inr False"
    by (simp add: example_eval)
  have h6: "GetSingleActiveLayerPixels ?env (video_codec ?settings) = Some 230400"
    by (simp add: example_eval)
  have h7: "GetEncoderBitrateLimitsForResolution ?env (encoder_info ?settings)
              (GetHigherResolutionThan ?env (uint32_to_int 230400)) = Some ?e"
    by (simp add: example_eval)
  have h8: "min_start_bitrate_bps ?e = 1500000"
    by simp
  have h9: "RTC_DCHECK_IS_ON ?env \<longrightarrow> uint (230400 :: uint32_t) \<le> sint (frame_size_pixels ?e)"
    by simp
  from IsAdaptationUpAllowed_singlecast_threshold [OF h1 h2 h3 h4 h5 h6 h7 h8 h9, of "()"]
  have "IsAdaptationUpAllowed ?env ?obj () (Some 230400) (Some 921600)
          = Inr (sint (1500000 :: int32) mod 2 ^ 32 \<le> uint (1200000 :: uint32_t))"
    by (rule conjunct1)
  then show ?thesis
    using h1 h5 by simp
qed

text \<open>
  C1 as the claim states it, with the comparison \<open>B \<ge> M\<close> on the signed entry, fails
  where the entry is negative: with \<open>M = - 1\<close> and \<open>B = 1600000\<close> every condition of
  the claim holds and \<open>M \<le> B\<close>, but the query returns false.
\<close>

theorem IsAdaptationUpAllowed_signed_threshold_counterexample:
  "DidIncreaseResolution (spec_collaborators True) (Some 230400) (Some (921600 :: nat))
   \<and> IsSimulcast (encoder_config (example_settings [\<lparr>active = True\<rparr>] (- 1))) = Inr False
   \<and> GetSingleActiveLayerPixels (spec_collaborators True)
        (video_codec (example_settings [\<lparr>active = True\<rparr>] (- 1))) = Some 230400
   \<and> GetEncoderBitrateLimitsForResolution (spec_collaborators True)
        (encoder_info (example_settings [\<lparr>active = True\<rparr>] (- 1)))
        (GetHigherResolutionThan (spec_collaborators True) (uint32_to_int 230400))
      = Some \<lparr>frame_size_pixels = 921600, min_start_bitrate_bps = - 1\<rparr>
   \<and> sint (- 1 :: int32) \<le> uint (1600000 :: uint32_t)
   \<and> IsAdaptationUpAllowed (spec_collaborators True)
        \<lparr>encoder_settings = Some (example_settings [\<lparr>active = True\<rparr>] (- 1)),
         encoder_target_bitrate_bps = Some 1600000\<rparr>
        () (Some 230400) (Some 921600)
      = Inr False"
  by (simp add: example_eval)

subsection \<open>C3: simulcast\<close>

text \<open>
  C3. For every resolution-increasing restriction pair and every stored state in which
  encoder settings are present and the effective target bitrate is nonzero: if the
  encoder configuration has more than one configured layer and (more than one layer is
  active or the lowest layer, the first of the vector, is active), then the
  configuration is classified as simulcast and \<^verbatim>\<open>IsAdaptationUpAllowed\<close> returns true,
  whatever the target bitrate is; conversely, a configuration that does not meet this
  predicate is not classified as simulcast: \<^verbatim>\<open>IsSimulcast\<close> does not return true for
  it, and returns false when the configuration has a layer at all.
\<close>

theorem IsSimulcast_classification:
  assumes "DidIncreaseResolution env restrictions_before restrictions_after"
    and "encoder_settings this = Some settings"
    and "value_or (encoder_target_bitrate_bps this) 0 \<noteq> 0"
    and "layers = simulcast_layers (encoder_config settings)"
  shows "(length layers > 1 \<and> (length (filter active layers) > 1 \<or> active (layers ! 0))
            \<longrightarrow> IsSimulcast (encoder_config settings) = Inr True
              \<and> IsAdaptationUpAllowed env this input_state
                    restrictions_before restrictions_after = Inr True)
       \<and> (\<not> (length layers > 1 \<and> (length (filter active layers) > 1 \<or> active (layers ! 0)))
            \<longrightarrow> IsSimulcast (encoder_config settings) \<noteq> Inr True)
       \<and> (\<not> (length layers > 1 \<and> (length (filter active layers) > 1 \<or> active (layers ! 0)))
            \<and> layers \<noteq> []
            \<longrightarrow> IsSimulcast (encoder_config settings) = Inr False)"
proof (intro conjI impI)
  assume simulcast:
    "length layers > 1 \<and> (length (filter active layers) > 1 \<or> active (layers ! 0))"
  with assms(4) show classified: "IsSimulcast (encoder_config settings) = Inr True"
    by (simp add: IsSimulcast_True_iff)
  with assms(1-3)
  show "IsAdaptationUpAllowed env this input_state restrictions_before restrictions_after
          = Inr True"
    by (simp add: IsAdaptationUpAllowed_def)
next
  assume "\<not> (length layers > 1 \<and> (length (filter active layers) > 1 \<or> active (layers ! 0)))"
  with assms(4) show "IsSimulcast (encoder_config settings) \<noteq> Inr True"
    by (simp add: IsSimulcast_True_iff)
next
  assume "\<not> (length layers > 1 \<and> (length (filter active layers) > 1 \<or> active (layers ! 0)))
          \<and> layers \<noteq> []"
  with assms(4) show "IsSimulcast (encoder_config settings) = Inr False"
    by (simp add: IsSimulcast_nonempty)
qed

text \<open>
  C3 at a concrete input: two configured layers of which only the lowest is active, a
  target bitrate of 1, far below the 1500000 of the next tier; the query returns true.
\<close>

theorem IsSimulcast_classification_witness:
  "DidIncreaseResolution (spec_collaborators True) (Some 230400) (Some (921600 :: nat))
   \<and> IsSimulcast (encoder_config
        (example_settings [\<lparr>active = True\<rparr>, \<lparr>active = False\<rparr>] 1500000)) = Inr True
   \<and> IsAdaptationUpAllowed (spec_collaborators True)
        \<lparr>encoder_settings =
           Some (example_settings [\<lparr>active = True\<rparr>, \<lparr>active = False\<rparr>] 1500000),
         encoder_target_bitrate_bps = Some 1\<rparr>
        () (Some 230400) (Some 921600)
      = Inr True"
proof -
  let ?env = "spec_collaborators True"
  let ?layers = "[\<lparr>active = True\<rparr>, \<lparr>active = False\<rparr>]"
  let ?settings = "example_settings ?layers 1500000"
  let ?obj = "\<lparr>encoder_settings = Some ?settings,
               encoder_target_bitrate_bps = Some (1 :: uint32_t)\<rparr>"
  have h1: "DidIncreaseResolution ?env (Some 230400) (Some (921600 :: nat))"
    by (simp add: example_eval)
  have h2: "encoder_settings ?obj = Some ?settings"
    by simp
  have h3: "value_or (encoder_target_bitrate_bps ?obj) 0 \<noteq> 0"
    by (simp add: value_or_def)
  have h4: "?layers = simulcast_layers (encoder_config ?settings)"
    by (simp add: example_settings_def)
  have p: "length ?layers > 1 \<and> (length (filter active ?layers) > 1 \<or> active (?layers ! 0))"
    by simp
  from IsSimulcast_classification [OF h1 h2 h3 h4, of "()"] p
  have "IsSimulcast (encoder_config ?settings) = Inr True
        \<and> IsAdaptationUpAllowed ?env ?obj () (Some 230400) (Some 921600) = Inr True"
    by blast
  with h1 show ?thesis
    by simp
qed

subsection \<open>C6: an absent and a zero target bitrate\<close>

text \<open>
  C6. The stored target bitrates "absent" and "present with value 0" are
  indistinguishable to the query: for every stored encoder settings, input state and
  restriction pair, \<^verbatim>\<open>IsAdaptationUpAllowed\<close> with the stored target bitrate absent
  returns what it returns with the stored target bitrate 0; and in both cases, for a
  resolution-increasing pair with settings present, the result is true.
\<close>

theorem IsAdaptationUpAllowed_absent_or_zero_bitrate:
  "IsAdaptationUpAllowed env (OnEncoderTargetBitrateUpdated None this) input_state
      restrictions_before restrictions_after
     = IsAdaptationUpAllowed env (OnEncoderTargetBitrateUpdated (Some 0) this) input_state
         restrictions_before restrictions_after
   \<and> (DidIncreaseResolution env restrictions_before restrictions_after
        \<and> encoder_settings this \<noteq> None
      \<longrightarrow> IsAdaptationUpAllowed env (OnEncoderTargetBitrateUpdated None this) input_state
            restrictions_before restrictions_after = Inr True
        \<and> IsAdaptationUpAllowed env (OnEncoderTargetBitrateUpdated (Some 0) this) input_state
            restrictions_before restrictions_after = Inr True)"
  by (cases "encoder_settings this")
     (simp_all add: IsAdaptationUpAllowed_def OnEncoderTargetBitrateUpdated_def value_or_def)

text \<open>
  C6 at a concrete input: the example, whose stored target bitrate of 1200000 blocks the
  increase, with the target bitrate then pushed as absent and as 0.
\<close>

theorem IsAdaptationUpAllowed_absent_or_zero_bitrate_witness:
  "DidIncreaseResolution (spec_collaborators True) (Some 230400) (Some (921600 :: nat))
   \<and> IsAdaptationUpAllowed (spec_collaborators True)
        (OnEncoderTargetBitrateUpdated None
           \<lparr>encoder_settings = Some (example_settings [\<lparr>active = True\<rparr>] 1500000),
            encoder_target_bitrate_bps = Some 1200000\<rparr>)
        () (Some 230400) (Some 921600)
      = Inr True
   \<and> IsAdaptationUpAllowed (spec_collaborators True)
        (OnEncoderTargetBitrateUpdated (Some 0)
           \<lparr>encoder_settings = Some (example_settings [\<lparr>active = True\<rparr>] 1500000),
            encoder_target_bitrate_bps = Some 1200000\<rparr>)
        () (Some 230400) (Some 921600)
      = Inr True"
proof -
  let ?env = "spec_collaborators True"
  let ?obj = "\<lparr>encoder_settings = Some (example_settings [\<lparr>active = True\<rparr>] 1500000),
               encoder_target_bitrate_bps = Some (1200000 :: uint32_t)\<rparr>"
  have h1: "DidIncreaseResolution ?env (Some 230400) (Some (921600 :: nat))"
    by (simp add: example_eval)
  have h2: "encoder_settings ?obj \<noteq> None"
    by simp
  from IsAdaptationUpAllowed_absent_or_zero_bitrate
         [of ?env ?obj "()" "Some 230400" "Some 921600"] h1 h2
  show ?thesis
    by blast
qed

subsection \<open>C7: no entry in the table\<close>

text \<open>
  C7. For every resolution-increasing restriction pair evaluated in singlecast with
  settings present, a nonzero effective target bitrate and a resolvable current pixel
  count \<open>P\<close>: if the table of the encoder has no entry for a tier above \<open>P\<close>, that is
  if the lookup yields nothing, then \<^verbatim>\<open>IsAdaptationUpAllowed\<close> returns true whatever
  the target bitrate is.
\<close>

theorem IsAdaptationUpAllowed_no_limits:
  assumes "DidIncreaseResolution env restrictions_before restrictions_after"
    and "encoder_settings this = Some settings"
    and "value_or (encoder_target_bitrate_bps this) 0 \<noteq> 0"
    and "IsSimulcast (encoder_config settings) = Inr False"
    and "GetSingleActiveLayerPixels env (video_codec settings) = Some P"
    and "GetEncoderBitrateLimitsForResolution env (encoder_info settings)
           (GetHigherResolutionThan env (uint32_to_int P)) = None"
  shows "IsAdaptationUpAllowed env this input_state restrictions_before restrictions_after
           = Inr True"
  using assms by (simp add: IsAdaptationUpAllowed_def)

text \<open>
  C7 at a concrete input: one stream of 1280 by 720 pixels, the highest tier of the
  table, and a target bitrate of 1.
\<close>

theorem IsAdaptationUpAllowed_no_limits_witness:
  "DidIncreaseResolution (spec_collaborators True) (Some 921600) (None :: nat option)
   \<and> GetEncoderBitrateLimitsForResolution (spec_collaborators True)
        (encoder_info example_settings_top)
        (GetHigherResolutionThan (spec_collaborators True) (uint32_to_int 921600)) = None
   \<and> IsAdaptationUpAllowed (spec_collaborators True)
        \<lparr>encoder_settings = Some example_settings_top,
         encoder_target_bitrate_bps = Some 1\<rparr>
        () (Some 921600) None
      = Inr True"
proof -
  let ?env = "spec_collaborators True"
  let ?obj = "\<lparr>encoder_settings = Some example_settings_top,
               encoder_target_bitrate_bps = Some (1 :: uint32_t)\<rparr>"
  have h1: "DidIncreaseResolution ?env (Some 921600) (None :: nat option)"
    by (simp add: example_eval)
  have h2: "encoder_settings ?obj = Some example_settings_top"
    by simp
  have h3: "value_or (encoder_target_bitrate_bps ?obj) 0 \<noteq> 0"
    by (simp add: value_or_def)
  have h4: "IsSimulcast (encoder_config example_settings_top) = Inr False"
    by (simp add: example_eval)
  have h5: "GetSingleActiveLayerPixels ?env (video_codec example_settings_top) = Some 921600"
    by (simp add: example_eval)
  have h6: "GetEncoderBitrateLimitsForResolution ?env (encoder_info example_settings_top)
              (GetHigherResolutionThan ?env (uint32_to_int 921600)) = None"
    by (simp add: example_eval)
  from IsAdaptationUpAllowed_no_limits [OF h1 h2 h3 h4 h5 h6, of "()"] h1 h6
  show ?thesis
    by simp
qed

subsection \<open>C10: the threshold is the entry converted to an unsigned value\<close>

text \<open>
  C10. In the blocking comparison the signed \<^verbatim>\<open>min_start_bitrate_bps\<close> of the
  looked-up entry is converted to a 32-bit unsigned value modulo \<open>2 ^ 32\<close> before it
  is compared with the target bitrate: for every entry whose
  \<^verbatim>\<open>min_start_bitrate_bps\<close> is negative the threshold is that value plus
  \<open>2 ^ 32\<close> (\<open>- 1\<close> behaves as 4294967295), not the signed value itself.
\<close>

theorem IsAdaptationUpAllowed_threshold_unsigned:
  assumes "DidIncreaseResolution env restrictions_before restrictions_after"
    and "encoder_settings this = Some settings"
    and "value_or (encoder_target_bitrate_bps this) 0 = B"
    and "B \<noteq> 0"
    and "IsSimulcast (encoder_config settings) = Inr False"
    and "GetSingleActiveLayerPixels env (video_codec settings) = Some P"
    and "GetEncoderBitrateLimitsForResolution env (encoder_info settings)
           (GetHigherResolutionThan env (uint32_to_int P)) = Some e"
    and "RTC_DCHECK_IS_ON env \<longrightarrow> uint P \<le> sint (frame_size_pixels e)"
  shows "IsAdaptationUpAllowed env this input_state restrictions_before restrictions_after
           = Inr (uint (static_cast_uint32_t (min_start_bitrate_bps e)) \<le> uint B)
       \<and> uint (static_cast_uint32_t (min_start_bitrate_bps e))
           = sint (min_start_bitrate_bps e) mod 2 ^ 32
       \<and> (sint (min_start_bitrate_bps e) < 0 \<longrightarrow>
            uint (static_cast_uint32_t (min_start_bitrate_bps e))
              = sint (min_start_bitrate_bps e) + 2 ^ 32
          \<and> IsAdaptationUpAllowed env this input_state restrictions_before restrictions_after
              = Inr (sint (min_start_bitrate_bps e) + 2 ^ 32 \<le> uint B))
       \<and> uint (static_cast_uint32_t (- 1)) = 4294967295"
proof -
  have result: "IsAdaptationUpAllowed env this input_state restrictions_before restrictions_after
      = Inr (uint (static_cast_uint32_t (min_start_bitrate_bps e)) \<le> uint B)"
    using IsAdaptationUpAllowed_compare [of env restrictions_before restrictions_after
        this settings P e input_state] assms
    by (simp add: word_le_def)
  have minus_one: "uint (static_cast_uint32_t (- 1)) = 4294967295"
    by (simp add: static_cast_uint32_t_def unsigned_minus_1_eq_mask mask_eq_exp_minus_1)
  show ?thesis
    apply (intro conjI impI)
        apply (rule result)
       apply (rule uint_static_cast_uint32_t)
      apply (erule uint_static_cast_uint32_t_neg)
     apply (simp add: result uint_static_cast_uint32_t_neg)
    apply (rule minus_one)
    done
qed

text \<open>
  C10 at a concrete input: the example with an entry of \<open>- 1000000\<close>, whose threshold
  is 4293967296, and a target bitrate of 4000000000 below it; the query returns false.
\<close>

theorem IsAdaptationUpAllowed_threshold_unsigned_witness:
  "sint (- 1000000 :: int32) < 0
   \<and> uint (static_cast_uint32_t (- 1000000)) = 4293967296
   \<and> IsAdaptationUpAllowed (spec_collaborators True)
        \<lparr>encoder_settings = Some (example_settings [\<lparr>active = True\<rparr>] (- 1000000)),
         encoder_target_bitrate_bps = Some 4000000000\<rparr>
        () (Some 230400) (Some 921600)
      = Inr False"
proof -
  let ?env = "spec_collaborators True"
  let ?settings = "example_settings [\<lparr>active = True\<rparr>] (- 1000000)"
  let ?obj = "\<lparr>encoder_settings = Some ?settings,
               encoder_target_bitrate_bps = Some (4000000000 :: uint32_t)\<rparr>"
  let ?e = "\<lparr>frame_size_pixels = 921600, min_start_bitrate_bps = - 1000000\<rparr>"
  have h1: "DidIncreaseResolution ?env (Some 230400) (Some (921600 :: nat))"
    by (simp add: example_eval)
  have h2: "encoder_settings ?obj = Some ?settings"
    by simp
  have h3: "value_or (encoder_target_bitrate_bps ?obj) 0 = 4000000000"
    by (simp add: value_or_def)
  have h4: "(4000000000 :: uint32_t) \<noteq> 0"
    by simp
  have h5: "IsSimulcast (encoder_config ?settings) = Inr False"
    by (simp add: example_eval)
  have h6: "GetSingleActiveLayerPixels ?env (video_codec ?settings) = Some 230400"
    by (simp add: example_eval)
  have h7: "GetEncoderBitrateLimitsForResolution ?env (encoder_info ?settings)
              (GetHigherResolutionThan ?env (uint32_to_int 230400)) = Some ?e"
    by (simp add: example_eval)
  have h8: "RTC_DCHECK_IS_ON ?env \<longrightarrow> uint (230400 :: uint32_t) \<le> sint (frame_size_pixels ?e)"
    by simp
  have neg: "sint (- 1000000 :: int32) < 0"
    by simp
  from IsAdaptationUpAllowed_threshold_unsigned [OF h1 h2 h3 h4 h5 h6 h7 h8, of "()"] neg
  have "uint (static_cast_uint32_t (min_start_bitrate_bps ?e))
          = sint (min_start_bitrate_bps ?e) + 2 ^ 32
        \<and> IsAdaptationUpAllowed ?env ?obj () (Some 230400) (Some 921600)
          = Inr (sint (min_start_bitrate_bps ?e) + 2 ^ 32 \<le> uint (4000000000 :: uint32_t))"
    by simp
  with neg show ?thesis
    by simp
qed

subsection \<open>C8: an update replaces the stored value\<close>

text \<open>
  C8. Each update fully replaces the stored value it is for, and the last write wins:
  for all settings \<open>A\<close> and \<open>B\<close>, \<^verbatim>\<open>OnEncoderSettingsUpdated(A)\<close> followed by
  \<^verbatim>\<open>OnEncoderSettingsUpdated(B)\<close> leaves the object in exactly the state that
  \<^verbatim>\<open>OnEncoderSettingsUpdated(B)\<close> alone produces, in which the stored settings are
  \<open>B\<close> and the stored target bitrate is untouched, so that a later query gives what
  it gives after \<open>B\<close> alone; likewise for \<^verbatim>\<open>OnEncoderTargetBitrateUpdated\<close>.
\<close>

theorem updates_overwrite:
  "OnEncoderSettingsUpdated B (OnEncoderSettingsUpdated A this) = OnEncoderSettingsUpdated B this
   \<and> encoder_settings (OnEncoderSettingsUpdated B this) = B
   \<and> encoder_target_bitrate_bps (OnEncoderSettingsUpdated B this)
       = encoder_target_bitrate_bps this
   \<and> IsAdaptationUpAllowed env (OnEncoderSettingsUpdated B (OnEncoderSettingsUpdated A this))
        input_state restrictions_before restrictions_after
       = IsAdaptationUpAllowed env (OnEncoderSettingsUpdated B this)
           input_state restrictions_before restrictions_after
   \<and> OnEncoderTargetBitrateUpdated y (OnEncoderTargetBitrateUpdated x this)
       = OnEncoderTargetBitrateUpdated y this
   \<and> encoder_target_bitrate_bps (OnEncoderTargetBitrateUpdated y this) = y
   \<and> encoder_settings (OnEncoderTargetBitrateUpdated y this) = encoder_settings this
   \<and> IsAdaptationUpAllowed env
        (OnEncoderTargetBitrateUpdated y (OnEncoderTargetBitrateUpdated x this))
        input_state restrictions_before restrictions_after
       = IsAdaptationUpAllowed env (OnEncoderTargetBitrateUpdated y this)
           input_state restrictions_before restrictions_after"
  by (simp add: OnEncoderSettingsUpdated_def OnEncoderTargetBitrateUpdated_def)

subsection \<open>C9: the query leaves the stored state and its arguments as they are\<close>

lemmas statement_defs =
  returns_def reads_def writes_def calls_def then_do_def RTC_DCHECK_RUN_ON_def

text \<open>
  The method returns what the decision function gives on the two stored members and the
  arguments, once line 61 has passed.
\<close>

lemma BitrateConstraint_IsAdaptationUpAllowed_decision:
  "BitrateConstraint_IsAdaptationUpAllowed env run_on m =
     (case run_on (sequence_checker (this_object m)) of
        Inl fault \<Rightarrow> Inl fault
      | Inr checker \<Rightarrow>
          (case IsAdaptationUpAllowed env (BitrateConstraint.truncate (this_object m))
                  (input_state_arg m) (restrictions_before_arg m) (restrictions_after_arg m) of
             Inl fault \<Rightarrow> Inl fault
           | Inr allowed \<Rightarrow>
               Inr (allowed,
                    m\<lparr>this_object := (this_object m)\<lparr>sequence_checker := checker\<rparr>\<rparr>)))"
  by (simp add: BitrateConstraint_IsAdaptationUpAllowed_def IsAdaptationUpAllowed_def
        statement_defs BitrateConstraint.truncate_def Let_def
      split: sum.split option.split bool.split)

lemma BitrateConstraint_IsAdaptationUpAllowed_once:
  assumes "BitrateConstraint_IsAdaptationUpAllowed env run_on m = Inr (allowed, m')"
  shows "encoder_settings (this_object m') = encoder_settings (this_object m)
       \<and> encoder_target_bitrate_bps (this_object m')
           = encoder_target_bitrate_bps (this_object m)
       \<and> input_state_arg m' = input_state_arg m
       \<and> restrictions_before_arg m' = restrictions_before_arg m
       \<and> restrictions_after_arg m' = restrictions_after_arg m"
  using assms
  by (auto simp add: BitrateConstraint_IsAdaptationUpAllowed_def statement_defs
      split: sum.splits option.splits bool.splits if_splits)

lemma query_repeatedly_frame:
  "query_repeatedly env run_ons m = Inr m' \<Longrightarrow>
     encoder_settings (this_object m') = encoder_settings (this_object m)
   \<and> encoder_target_bitrate_bps (this_object m') = encoder_target_bitrate_bps (this_object m)
   \<and> input_state_arg m' = input_state_arg m
   \<and> restrictions_before_arg m' = restrictions_before_arg m
   \<and> restrictions_after_arg m' = restrictions_after_arg m"
proof (induction run_ons arbitrary: m)
  case Nil
  then show ?case
    by simp
next
  case (Cons run_on later)
  from Cons.prems obtain allowed m1 where
    first: "BitrateConstraint_IsAdaptationUpAllowed env run_on m = Inr (allowed, m1)"
    and rest: "query_repeatedly env later m1 = Inr m'"
    by (auto split: sum.splits)
  from BitrateConstraint_IsAdaptationUpAllowed_once [OF first] Cons.IH [OF rest]
  show ?case
    by simp
qed

text \<open>
  C9. \<^verbatim>\<open>IsAdaptationUpAllowed\<close> never changes the stored state of the constraint or
  its arguments: for every memory, whatever line 61 does to the sequence checker, when
  the call returns, the stored encoder settings and the stored target bitrate are what
  they were before the call, and so are the three arguments; the same holds after any
  number of calls that return, and a query on the stored members after them decides
  what it decided before them.
\<close>

theorem BitrateConstraint_IsAdaptationUpAllowed_frame:
  assumes "BitrateConstraint_IsAdaptationUpAllowed env run_on m = Inr (allowed, m')"
  shows "encoder_settings (this_object m') = encoder_settings (this_object m)
       \<and> encoder_target_bitrate_bps (this_object m')
           = encoder_target_bitrate_bps (this_object m)
       \<and> input_state_arg m' = input_state_arg m
       \<and> restrictions_before_arg m' = restrictions_before_arg m
       \<and> restrictions_after_arg m' = restrictions_after_arg m
       \<and> (\<forall>run_ons m''.
            query_repeatedly env run_ons m = Inr m'' \<longrightarrow>
              encoder_settings (this_object m'') = encoder_settings (this_object m)
            \<and> encoder_target_bitrate_bps (this_object m'')
                = encoder_target_bitrate_bps (this_object m)
            \<and> input_state_arg m'' = input_state_arg m
            \<and> restrictions_before_arg m'' = restrictions_before_arg m
            \<and> restrictions_after_arg m'' = restrictions_after_arg m
            \<and> IsAdaptationUpAllowed env (BitrateConstraint.truncate (this_object m''))
                 (input_state_arg m'') (restrictions_before_arg m'')
                 (restrictions_after_arg m'')
               = IsAdaptationUpAllowed env (BitrateConstraint.truncate (this_object m))
                   (input_state_arg m) (restrictions_before_arg m)
                   (restrictions_after_arg m))"
proof -
  have after_many:
    "IsAdaptationUpAllowed env (BitrateConstraint.truncate (this_object m''))
        (input_state_arg m'') (restrictions_before_arg m'') (restrictions_after_arg m'')
       = IsAdaptationUpAllowed env (BitrateConstraint.truncate (this_object m))
           (input_state_arg m) (restrictions_before_arg m) (restrictions_after_arg m)"
    if "query_repeatedly env run_ons m = Inr m''" for run_ons m''
    using query_repeatedly_frame [OF that]
    by (simp add: BitrateConstraint.truncate_def)
  show ?thesis
    using BitrateConstraint_IsAdaptationUpAllowed_once [OF assms]
      query_repeatedly_frame [of env _ m] after_many
    by blast
qed

text \<open>
  C9 at a concrete input: the object of the example with a target bitrate of 1200000
  and a detached checker, queried from context 7 in a build with assertions, once and
  three times. The call returns false and binds the checker to 7; the stored settings,
  the stored target bitrate and the arguments are those before the call.
\<close>

theorem BitrateConstraint_IsAdaptationUpAllowed_frame_witness:
  "BitrateConstraint_IsAdaptationUpAllowed (spec_collaborators True)
     (spec_RTC_DCHECK_RUN_ON True 7)
     \<lparr>this_object =
        \<lparr>encoder_settings = Some (example_settings [\<lparr>active = True\<rparr>] 1500000),
         encoder_target_bitrate_bps = Some 1200000,
         sequence_checker = None\<rparr>,
      input_state_arg = (), restrictions_before_arg = Some 230400,
      restrictions_after_arg = Some 921600\<rparr>
   = Inr (False,
       \<lparr>this_object =
          \<lparr>encoder_settings = Some (example_settings [\<lparr>active = True\<rparr>] 1500000),
           encoder_target_bitrate_bps = Some 1200000,
           sequence_checker = Some 7\<rparr>,
        input_state_arg = (), restrictions_before_arg = Some 230400,
        restrictions_after_arg = Some 921600\<rparr>)
   \<and> query_repeatedly (spec_collaborators True)
       [spec_RTC_DCHECK_RUN_ON True 7, spec_RTC_DCHECK_RUN_ON True 7,
        spec_RTC_DCHECK_RUN_ON True 7]
       \<lparr>this_object =
          \<lparr>encoder_settings = Some (example_settings [\<lparr>active = True\<rparr>] 1500000),
           encoder_target_bitrate_bps = Some 1200000,
           sequence_checker = None\<rparr>,
        input_state_arg = (), restrictions_before_arg = Some 230400,
        restrictions_after_arg = Some 921600\<rparr>
     = Inr
       \<lparr>this_object =
          \<lparr>encoder_settings = Some (example_settings [\<lparr>active = True\<rparr>] 1500000),
           encoder_target_bitrate_bps = Some 1200000,
           sequence_checker = Some 7\<rparr>,
        input_state_arg = (), restrictions_before_arg = Some 230400,
        restrictions_after_arg = Some 921600\<rparr>"
proof -
  let ?env = "spec_collaborators True"
  let ?run_on = "spec_RTC_DCHECK_RUN_ON True 7"
  let ?settings = "example_settings [\<lparr>active = True\<rparr>] 1500000"
  let ?m = "\<lparr>this_object =
               \<lparr>encoder_settings = Some ?settings,
                encoder_target_bitrate_bps = Some (1200000 :: uint32_t),
                sequence_checker = (None :: nat option)\<rparr>,
             input_state_arg = (), restrictions_before_arg = Some (230400 :: nat),
             restrictions_after_arg = Some (921600 :: nat)\<rparr>"
  let ?m' = "\<lparr>this_object =
                \<lparr>encoder_settings = Some ?settings,
                 encoder_target_bitrate_bps = Some (1200000 :: uint32_t),
                 sequence_checker = Some (7 :: nat)\<rparr>,
              input_state_arg = (), restrictions_before_arg = Some (230400 :: nat),
              restrictions_after_arg = Some (921600 :: nat)\<rparr>"
  have first: "BitrateConstraint_IsAdaptationUpAllowed ?env ?run_on ?m = Inr (False, ?m')"
    by (simp add: BitrateConstraint_IsAdaptationUpAllowed_def statement_defs
          spec_RTC_DCHECK_RUN_ON_def example_eval)
  have later: "BitrateConstraint_IsAdaptationUpAllowed ?env ?run_on ?m' = Inr (False, ?m')"
    by (simp add: BitrateConstraint_IsAdaptationUpAllowed_def statement_defs
          spec_RTC_DCHECK_RUN_ON_def example_eval)
  have thrice: "query_repeatedly ?env [?run_on, ?run_on, ?run_on] ?m = Inr ?m'"
    by (simp add: first later)
  from BitrateConstraint_IsAdaptationUpAllowed_frame [OF first] thrice
  have "encoder_settings (this_object ?m') = encoder_settings (this_object ?m)"
    by blast
  with first thrice show ?thesis
    by simp
qed

subsection \<open>C4: the empty vector of layers\<close>

lemma IsAdaptationUpAllowed_empty_layers:
  assumes "DidIncreaseResolution env restrictions_before restrictions_after"
    and "encoder_settings this = Some settings"
    and "value_or (encoder_target_bitrate_bps this) 0 \<noteq> 0"
    and "simulcast_layers (encoder_config settings) = []"
  shows "IsAdaptationUpAllowed env this input_state restrictions_before restrictions_after
           = Inl OutOfBoundsRead"
  using assms by (simp add: IsAdaptationUpAllowed_def IsSimulcast_empty)

lemma IsAdaptationUpAllowed_returns:
  assumes layers: "\<And>settings. encoder_settings this = Some settings
                     \<Longrightarrow> simulcast_layers (encoder_config settings) \<noteq> []"
    and release: "\<not> RTC_DCHECK_IS_ON env"
  shows "\<exists>allowed. IsAdaptationUpAllowed env this input_state
                      restrictions_before restrictions_after = Inr allowed"
proof (cases "encoder_settings this")
  case None
  then have "IsAdaptationUpAllowed env this input_state restrictions_before restrictions_after
      = Inr True"
    by (simp add: IsAdaptationUpAllowed_def)
  then show ?thesis
    by (rule exI)
next
  case (Some settings)
  with layers have "simulcast_layers (encoder_config settings) \<noteq> []"
    by simp
  then obtain s where "IsSimulcast (encoder_config settings) = Inr s"
    by (auto simp add: IsSimulcast_nonempty)
  with Some release show ?thesis
    by (auto simp add: IsAdaptationUpAllowed_def Let_def split: option.splits bool.splits)
qed

text \<open>
  C4 states that \<^verbatim>\<open>IsAdaptationUpAllowed\<close> is total and never fails, also for encoder
  settings whose vector of layers is empty, every missing datum resolving to true. The
  source reads \<^verbatim>\<open>simulcast_layers[0]\<close> before the size of the vector decides
  anything: with settings whose vector of layers is empty, a nonzero target bitrate and
  a resolution-increasing pair, the call reads out of range instead of returning, in a
  build without assertions too.
\<close>

theorem IsAdaptationUpAllowed_empty_layers_fault:
  "IsAdaptationUpAllowed (spec_collaborators False)
     \<lparr>encoder_settings = Some (example_settings [] 1500000),
      encoder_target_bitrate_bps = Some 1200000\<rparr>
     () (Some 230400) (Some (921600 :: nat))
   = Inl OutOfBoundsRead"
  by (simp add: example_eval)

end
